theory Spec2Isabelle
  imports Main
begin

section \<open>JavaScript strings and the character classes of the source's patterns\<close>

text \<open>
  A JavaScript string is a sequence of UTF-16 code units; the patterns of the scraper
  (none has the \<^verbatim>\<open>u\<close> flag) work on code units. A code unit is a natural number,
  so that the peso sign (U+20B1), the euro sign (U+20AC), the pound sign (U+00A3) and the
  breadcrumb marker (U+203A) of the source can be written.
\<close>

type_synonym jsstring = "nat list"

definition str :: "string \<Rightarrow> jsstring" where
  "str s = map of_char s"

definition peso :: nat where "peso = 8369"
definition dollar :: nat where "dollar = 36"
definition euro :: nat where "euro = 8364"
definition pound :: nat where "pound = 163"
definition comma :: nat where "comma = 44"
definition breadcrumb :: nat where "breadcrumb = 8250"

text \<open>\<^verbatim>\<open>\d\<close>, \<^verbatim>\<open>[A-Z]\<close>, \<^verbatim>\<open>\w\<close> and \<^verbatim>\<open>\s\<close> (white space and line terminators).\<close>

definition isDigit :: "nat \<Rightarrow> bool" where
  "isDigit c \<longleftrightarrow> 48 \<le> c \<and> c \<le> 57"

definition isUpper :: "nat \<Rightarrow> bool" where
  "isUpper c \<longleftrightarrow> 65 \<le> c \<and> c \<le> 90"

definition isWordChar :: "nat \<Rightarrow> bool" where
  "isWordChar c \<longleftrightarrow> isDigit c \<or> isUpper c \<or> (97 \<le> c \<and> c \<le> 122) \<or> c = 95"

definition isSpace :: "nat \<Rightarrow> bool" where
  "isSpace c \<longleftrightarrow>
     c = 9 \<or> c = 10 \<or> c = 11 \<or> c = 12 \<or> c = 13 \<or> c = 32 \<or> c = 160 \<or> c = 5760 \<or>
     (8192 \<le> c \<and> c \<le> 8202) \<or> c = 8232 \<or> c = 8233 \<or> c = 8239 \<or> c = 8287 \<or>
     c = 12288 \<or> c = 65279"

text \<open>The class \<^verbatim>\<open>[\s\u20b1$\u20ac\u00a3]\<close> and the class \<^verbatim>\<open>[\d,]\<close> of the price patterns.\<close>

definition isPriceSep :: "nat \<Rightarrow> bool" where
  "isPriceSep c \<longleftrightarrow> isSpace c \<or> c = peso \<or> c = dollar \<or> c = euro \<or> c = pound"

definition isDigitComma :: "nat \<Rightarrow> bool" where
  "isDigitComma c \<longleftrightarrow> isDigit c \<or> c = comma"

text \<open>Case folding of the \<^verbatim>\<open>i\<close> flag, on the letters the mileage pattern names.\<close>

definition lowerAscii :: "nat \<Rightarrow> nat" where
  "lowerAscii c = (if isUpper c then c + 32 else c)"

text \<open>\<^verbatim>\<open>String.prototype.trim\<close>.\<close>

definition trim :: "jsstring \<Rightarrow> jsstring" where
  "trim s = rev (dropWhile isSpace (rev (dropWhile isSpace s)))"

text \<open>The value of a string of decimal digits.\<close>

definition digits_value :: "jsstring \<Rightarrow> nat" where
  "digits_value ds = foldl (\<lambda>n c. 10 * n + (c - 48)) 0 ds"

text \<open>
  A JavaScript number as this program produces it: \<open>NaN\<close>, or an integer-valued
  number. \<open>Num n\<close> stands for the double nearest to \<open>n\<close>, which is \<open>n\<close> itself
  up to \<open>2 ^ 53\<close> in absolute value; the rounding of longer digit strings and numbers
  with a fraction are not modelled.
\<close>

datatype jsnum = NaN | Num int

text \<open>\<^verbatim>\<open>parseFloat\<close> on the strings it is applied to here, made of digits only.\<close>

definition parseFloat_digits :: "jsstring \<Rightarrow> jsnum" where
  "parseFloat_digits s = (if s = [] then NaN else Num (int (digits_value s)))"

text \<open>\<^verbatim>\<open>parseInt(s, 10)\<close> on a string of digits (the four of a year match).\<close>

definition parseInt_digits :: "jsstring \<Rightarrow> int" where
  "parseInt_digits s = int (digits_value s)"

section \<open>The patterns of \<^verbatim>\<open>normalizeListingData\<close>\<close>

subsection \<open>\<^verbatim>\<open>/([A-Z]{3})?[\s\u20b1$\u20ac\u00a3]*([\d,]+)/\<close>\<close>

text \<open>
  \<open>price_tail s\<close> matches \<^verbatim>\<open>[\s\u20b1$\u20ac\u00a3]*([\d,]+)\<close> at the start of \<open>s\<close> and gives
  group 2. Both repetitions are greedy; the two classes are disjoint, so giving back a
  separator or a digit never turns a failure into a match.
\<close>

definition price_tail :: "jsstring \<Rightarrow> jsstring option" where
  "price_tail s =
     (let d = takeWhile isDigitComma (dropWhile isPriceSep s)
      in if d = [] then None else Some d)"

text \<open>
  The whole pattern at the start of \<open>s\<close>: group 1 is tried first (three capital
  letters), and on failure of the rest the pattern is tried again without it. The result
  is (group 1, group 2).
\<close>

definition price_at :: "jsstring \<Rightarrow> (jsstring option \<times> jsstring) option" where
  "price_at s =
     (if 3 \<le> length s \<and> list_all isUpper (take 3 s) then
        (case price_tail (drop 3 s) of
           Some d \<Rightarrow> Some (Some (take 3 s), d)
         | None \<Rightarrow> map_option (Pair None) (price_tail s))
      else map_option (Pair None) (price_tail s))"

text \<open>\<^verbatim>\<open>String.prototype.match\<close>: the leftmost start position that matches.\<close>

fun price_match :: "jsstring \<Rightarrow> (jsstring option \<times> jsstring) option" where
  "price_match [] = price_at []"
| "price_match (c # cs) =
     (case price_at (c # cs) of Some m \<Rightarrow> Some m | None \<Rightarrow> price_match cs)"

subsection \<open>\<^verbatim>\<open>/\b(19|20)\d{2}\b/\<close>\<close>

text \<open>\<^verbatim>\<open>\b\<close> between the code unit before (none at the start) and the one after.\<close>

definition isWordOpt :: "nat option \<Rightarrow> bool" where
  "isWordOpt c = (case c of None \<Rightarrow> False | Some x \<Rightarrow> isWordChar x)"

definition wordBoundary :: "nat option \<Rightarrow> nat option \<Rightarrow> bool" where
  "wordBoundary prev after \<longleftrightarrow> isWordOpt prev \<noteq> isWordOpt after"

definition year_at :: "nat option \<Rightarrow> jsstring \<Rightarrow> bool" where
  "year_at prev s =
     (case s of
        a # b # c # d # rest \<Rightarrow>
          wordBoundary prev (Some a) \<and>
          ((a = 49 \<and> b = 57) \<or> (a = 50 \<and> b = 48)) \<and>
          isDigit c \<and> isDigit d \<and>
          wordBoundary (Some d) (case rest of [] \<Rightarrow> None | e # _ \<Rightarrow> Some e)
      | _ \<Rightarrow> False)"

fun year_scan :: "nat option \<Rightarrow> jsstring \<Rightarrow> jsstring option" where
  "year_scan prev [] = None"
| "year_scan prev (c # cs) =
     (if year_at prev (c # cs) then Some (take 4 (c # cs)) else year_scan (Some c) cs)"

definition year_match :: "jsstring \<Rightarrow> jsstring option" where
  "year_match s = year_scan None s"

subsection \<open>\<^verbatim>\<open>/(\d+[,.]?\d*)\s*(k|km|miles)/i\<close>\<close>

text \<open>
  The pattern at the start of \<open>s\<close>, giving the whole match. Every repetition is greedy
  and is followed by a class disjoint from it, so the greedy path decides. Of the
  alternatives \<^verbatim>\<open>k|km|miles\<close> the first that matches is taken: \<^verbatim>\<open>km\<close> is never reached,
  \<^verbatim>\<open>k\<close> matches before it.
\<close>

definition mileage_at :: "jsstring \<Rightarrow> jsstring option" where
  "mileage_at s =
     (let d1 = takeWhile isDigit s;
          r1 = dropWhile isDigit s;
          sep = (case r1 of [] \<Rightarrow> [] | c # _ \<Rightarrow> if c = comma \<or> c = 46 then [c] else []);
          r2 = drop (length sep) r1;
          d2 = takeWhile isDigit r2;
          r3 = dropWhile isDigit r2;
          sp = takeWhile isSpace r3;
          r4 = dropWhile isSpace r3;
          unit =
            (if map lowerAscii (take 1 r4) = str ''k'' then Some (take 1 r4)
             else if map lowerAscii (take 5 r4) = str ''miles'' then Some (take 5 r4)
             else None)
      in if d1 = [] then None
         else (case unit of None \<Rightarrow> None | Some u \<Rightarrow> Some (d1 @ sep @ d2 @ sp @ u)))"

fun mileage_match :: "jsstring \<Rightarrow> jsstring option" where
  "mileage_match [] = None"
| "mileage_match (c # cs) =
     (case mileage_at (c # cs) of Some m \<Rightarrow> Some m | None \<Rightarrow> mileage_match cs)"

subsection \<open>\<^verbatim>\<open>extractListingId\<close>: \<^verbatim>\<open>/\/item\/(\d+)/\<close>\<close>

definition item_at :: "jsstring \<Rightarrow> jsstring option" where
  "item_at s =
     (if take 6 s = str ''/item/'' \<and> takeWhile isDigit (drop 6 s) \<noteq> []
      then Some (takeWhile isDigit (drop 6 s)) else None)"

fun item_match :: "jsstring \<Rightarrow> jsstring option" where
  "item_match [] = None"
| "item_match (c # cs) =
     (case item_at (c # cs) of Some m \<Rightarrow> Some m | None \<Rightarrow> item_match cs)"

definition extractListingId :: "jsstring \<Rightarrow> jsstring option" where
  "extractListingId url = item_match url"

section \<open>Normalization\<close>

text \<open>
  The object the in-page extractor emits for one listing. The extractor never sets
  \<^verbatim>\<open>location\<close> or \<^verbatim>\<open>description\<close>, but \<^verbatim>\<open>normalizeListingData\<close> reads them, so they are
  optional fields here. The fields \<^verbatim>\<open>title\<close>, \<^verbatim>\<open>image_url\<close>, \<^verbatim>\<open>listing_id\<close>, \<^verbatim>\<open>location\<close> and
  \<^verbatim>\<open>description\<close> are written \<open>raw_title\<close> and so on, the normalized listing has fields of
  the same names.
\<close>

record rawData =
  raw_title :: jsstring
  price_raw :: jsstring
  url :: jsstring
  raw_image_url :: "jsstring option"
  raw_listing_id :: jsstring
  raw_location :: "jsstring option"
  raw_description :: "jsstring option"

text \<open>The object \<^verbatim>\<open>normalizeListingData\<close> returns, which \<^verbatim>\<open>upsert\<close> stores.\<close>

record listing =
  title :: jsstring
  price :: jsnum
  currency :: jsstring
  year :: "int option"
  mileage :: "jsstring option"
  location :: jsstring
  source_url :: jsstring
  listing_id :: "jsstring option"
  image_url :: "jsstring option"
  description :: "jsstring option"

text \<open>\<^verbatim>\<open>x || null\<close> and \<^verbatim>\<open>x || d\<close> on an optional string: the empty string is falsy.\<close>

definition or_null :: "jsstring option \<Rightarrow> jsstring option" where
  "or_null x = (case x of None \<Rightarrow> None | Some s \<Rightarrow> if s = [] then None else Some s)"

definition or_default :: "jsstring option \<Rightarrow> jsstring \<Rightarrow> jsstring" where
  "or_default x d = (case or_null x of None \<Rightarrow> d | Some s \<Rightarrow> s)"

text \<open>
  \<^verbatim>\<open>normalizeListingData\<close>: \<open>None\<close> is the \<^verbatim>\<open>null\<close> it returns when the price pattern
  does not match. On the typed input of this model nothing in its \<^verbatim>\<open>try\<close> block
  throws, so the \<^verbatim>\<open>catch\<close> branch (also \<^verbatim>\<open>null\<close>) is not reached.
\<close>

definition normalizeListingData :: "rawData \<Rightarrow> listing option" where
  "normalizeListingData rawData =
     (case price_match (price_raw rawData) of
        None \<Rightarrow> None
      | Some (g1, g2) \<Rightarrow>
          Some \<lparr> title = raw_title rawData,
                 price = parseFloat_digits (filter (\<lambda>c. c \<noteq> comma) g2),
                 currency = or_default g1 (str ''PHP''),
                 year = map_option parseInt_digits (year_match (raw_title rawData)),
                 mileage = mileage_match (raw_title rawData),
                 location = or_default (raw_location rawData) (str ''Manila''),
                 source_url = url rawData,
                 listing_id = extractListingId (url rawData),
                 image_url = or_null (raw_image_url rawData),
                 description = or_null (raw_description rawData) \<rparr>)"

text \<open>
  The normalization loop of \<^verbatim>\<open>scrape\<close>: \<open>listings\<close> is the array the loop pushes to.
\<close>

fun normalize_loop :: "rawData list \<Rightarrow> listing list \<Rightarrow> listing list" where
  "normalize_loop [] listings = listings"
| "normalize_loop (item # rest) listings =
     (case normalizeListingData item of
        None \<Rightarrow> normalize_loop rest listings
      | Some l \<Rightarrow> normalize_loop rest (listings @ [l]))"

section \<open>The in-page extractor\<close>

text \<open>
  The page as the extractor reads it: \<open>listingLinks\<close> is the result of
  \<^verbatim>\<open>querySelectorAll('a[href*="/marketplace/item/"]')\<close> in document order. Of an anchor
  the code reads \<^verbatim>\<open>href\<close> and its fifth ancestor (\<open>None\<close> when the chain of
  \<^verbatim>\<open>parentElement\<close> ends earlier); of that container it reads the text of every
  \<^verbatim>\<open>span\<close> and the first \<^verbatim>\<open>img\<close>.
\<close>

record img =
  src :: jsstring
  data_src :: "jsstring option"

record container =
  spans :: "jsstring list"
  first_img :: "img option"

record anchor =
  href :: jsstring
  parent5 :: "container option"

text \<open>\<^verbatim>\<open>(PHP|\u20b1|\$|\u20ac|\u00a3)\<close> at the start of \<open>s\<close>: what follows the alternative taken.\<close>

definition currency_prefix :: "jsstring \<Rightarrow> jsstring option" where
  "currency_prefix s =
     (if take 3 s = str ''PHP'' then Some (drop 3 s)
      else (case s of
              [] \<Rightarrow> None
            | c # cs \<Rightarrow>
                if c = peso \<or> c = dollar \<or> c = euro \<or> c = pound then Some cs else None))"

text \<open>\<^verbatim>\<open>/^(PHP|\u20b1|\$|\u20ac|\u00a3)\s*[\d,]+/.test(t)\<close>\<close>

definition price_prefixed :: "jsstring \<Rightarrow> bool" where
  "price_prefixed t =
     (case currency_prefix t of
        None \<Rightarrow> False
      | Some r \<Rightarrow> takeWhile isDigitComma (dropWhile isSpace r) \<noteq> [])"

text \<open>\<^verbatim>\<open>/^[\d,]+\s*(PHP|\u20b1)/.test(t)\<close>\<close>

definition price_suffixed :: "jsstring \<Rightarrow> bool" where
  "price_suffixed t =
     (let r = dropWhile isSpace (dropWhile isDigitComma t)
      in takeWhile isDigitComma t \<noteq> [] \<and> (take 3 r = str ''PHP'' \<or> take 1 r = [peso]))"

definition isPriceText :: "jsstring \<Rightarrow> bool" where
  "isPriceText t \<longleftrightarrow> price_prefixed t \<or> price_suffixed t"

definition isTitleText :: "jsstring option \<Rightarrow> jsstring \<Rightarrow> bool" where
  "isTitleText priceText t \<longleftrightarrow>
     length t > 10 \<and> breadcrumb \<notin> set t \<and> currency_prefix t = None \<and> Some t \<noteq> priceText"

text \<open>\<^verbatim>\<open>imgElement ? (imgElement.src || imgElement.getAttribute('data-src')) : null\<close>\<close>

definition imageUrl_of :: "img option \<Rightarrow> jsstring option" where
  "imageUrl_of imgElement =
     (case imgElement of
        None \<Rightarrow> None
      | Some i \<Rightarrow> if src i \<noteq> [] then Some (src i) else data_src i)"

text \<open>
  The callback of \<^verbatim>\<open>forEach\<close>, on the state it mutates: the array \<open>results\<close> and the
  set \<open>seenIds\<close> (a list, in insertion order). Each \<^verbatim>\<open>return\<close> of the callback leaves
  the state as it is at that point. On this input nothing in the callback throws, so its
  \<^verbatim>\<open>catch\<close>, which logs and goes on with the next anchor, has no branch.
\<close>

definition extract_link ::
  "int \<Rightarrow> anchor \<Rightarrow> rawData list \<times> jsstring list \<Rightarrow> rawData list \<times> jsstring list" where
  "extract_link maxListings linkElement st =
     (case st of (results, seenIds) \<Rightarrow>
        (case item_match (href linkElement) of
           None \<Rightarrow> (results, seenIds)
         | Some listingId \<Rightarrow>
             if listingId \<in> set seenIds then (results, seenIds)
             else if maxListings \<le> int (length results) then (results, seenIds @ [listingId])
             else (case parent5 linkElement of
                     None \<Rightarrow> (results, seenIds @ [listingId])
                   | Some container \<Rightarrow>
                       (let textContent = filter (\<lambda>t. length t > 0) (map trim (spans container));
                            priceText = find isPriceText textContent;
                            titleText = find (isTitleText priceText) textContent;
                            imageUrl = imageUrl_of (first_img container)
                        in (case (priceText, titleText) of
                              (Some p, Some t) \<Rightarrow>
                                if href linkElement \<noteq> [] then
                                  (results @
                                     [\<lparr> raw_title = t, price_raw = p, url = href linkElement,
                                         raw_image_url = imageUrl, raw_listing_id = listingId,
                                         raw_location = None, raw_description = None \<rparr>],
                                   seenIds @ [listingId])
                                else (results, seenIds @ [listingId])
                            | _ \<Rightarrow> (results, seenIds @ [listingId]))))))"

text \<open>The function passed to \<^verbatim>\<open>page.evaluate\<close>: it returns \<open>results\<close>.\<close>

definition extractor :: "int \<Rightarrow> anchor list \<Rightarrow> rawData list" where
  "extractor maxListings listingLinks =
     fst (foldl (\<lambda>st linkElement. extract_link maxListings linkElement st) ([], []) listingLinks)"

section \<open>Errors\<close>

text \<open>
  Every \<^verbatim>\<open>throw\<close> of the modelled code and every rejected promise of its collaborators
  (puppeteer, PostgreSQL) is a value of \<open>error\<close>. The two errors of the service that
  carry \<^verbatim>\<open>status = 404\<close> are \<open>ListingNotFound\<close> and \<open>ListingNotFoundOrInactive\<close>.
\<close>

datatype error =
    LaunchError | NewPageError | SetViewportError | SetHeadersError
  | NavigationTimeout | NavigationError | ScrollError | EvaluateError
  | StringTooLong | NumericOverflow
  | NoValidFields
  | InvalidPrice | InvalidYear | EmptyTitle
  | ListingNotFound | ListingNotFoundOrInactive

definition status :: "error \<Rightarrow> nat option" where
  "status e = (if e = ListingNotFound \<or> e = ListingNotFoundOrInactive then Some 404 else None)"

text \<open>\<^verbatim>\<open>errorHandler\<close>: \<^verbatim>\<open>err.status || err.statusCode || 500\<close>.\<close>

definition statusCode :: "error \<Rightarrow> nat" where
  "statusCode e = (case status e of Some c \<Rightarrow> c | None \<Rightarrow> 500)"

section \<open>The table \<^verbatim>\<open>car_listings\<close>\<close>

text \<open>
  A row has the columns of the migration: those of a listing, and \<^verbatim>\<open>id\<close>, the three
  timestamps and \<^verbatim>\<open>is_active\<close>. Values are well typed for their columns (an \<open>int\<close> is a
  PostgreSQL \<^verbatim>\<open>INTEGER\<close>, a string is well-formed text), a column is \<^verbatim>\<open>NULL\<close> only where
  a listing has \<^verbatim>\<open>null\<close>, and the database is reachable: a statement fails only on a
  length or precision limit of a column. Time is a natural
  number; \<open>now\<close> is the \<^verbatim>\<open>CURRENT_TIMESTAMP\<close> of the statement.
\<close>

record row = listing +
  row_id :: int
  created_at :: nat
  updated_at :: nat
  last_scraped_at :: nat
  is_active :: bool

text \<open>
  The state of the database: the committed rows, the last value of the \<^verbatim>\<open>SERIAL\<close>
  sequence of \<^verbatim>\<open>id\<close>, whether the client checked out by \<^verbatim>\<open>getClient\<close> has a
  transaction open, and the number of statements the program has sent.
\<close>

record db =
  car_listings :: "row list"
  id_seq :: int
  client_tx :: bool
  statements :: nat

text \<open>
  \<^verbatim>\<open>VARCHAR(n)\<close> counts characters: a surrogate pair is one. A longer value is
  rejected, unless all that exceeds \<open>n\<close> characters is spaces, which are cut off.
\<close>

definition isHighSurrogate :: "nat \<Rightarrow> bool" where
  "isHighSurrogate c \<longleftrightarrow> 55296 \<le> c \<and> c \<le> 56319"

definition isLowSurrogate :: "nat \<Rightarrow> bool" where
  "isLowSurrogate c \<longleftrightarrow> 56320 \<le> c \<and> c \<le> 57343"

fun char_count :: "jsstring \<Rightarrow> nat" where
  "char_count [] = 0"
| "char_count [c] = 1"
| "char_count (h # l # cs) =
     (if isHighSurrogate h \<and> isLowSurrogate l then Suc (char_count cs)
      else Suc (char_count (l # cs)))"

fun split_chars :: "nat \<Rightarrow> jsstring \<Rightarrow> jsstring \<times> jsstring" where
  "split_chars 0 s = ([], s)"
| "split_chars (Suc n) [] = ([], [])"
| "split_chars (Suc n) [c] = ([c], [])"
| "split_chars (Suc n) (h # l # cs) =
     (if isHighSurrogate h \<and> isLowSurrogate l
      then (case split_chars n cs of (a, b) \<Rightarrow> (h # l # a, b))
      else (case split_chars n (l # cs) of (a, b) \<Rightarrow> (h # a, b)))"

definition varchar :: "nat \<Rightarrow> jsstring \<Rightarrow> error + jsstring" where
  "varchar n s =
     (if char_count s \<le> n then Inr s
      else (case split_chars n s of
              (kept, excess) \<Rightarrow>
                if list_all (\<lambda>c. c = 32) excess then Inr kept else Inl StringTooLong))"

definition varchar_opt :: "nat \<Rightarrow> jsstring option \<Rightarrow> error + jsstring option" where
  "varchar_opt n x =
     (case x of
        None \<Rightarrow> Inr None
      | Some s \<Rightarrow> (case varchar n s of Inl e \<Rightarrow> Inl e | Inr s' \<Rightarrow> Inr (Some s')))"

text \<open>\<^verbatim>\<open>NUMERIC(12, 2)\<close>: ten digits before the point; \<^verbatim>\<open>NaN\<close> is a numeric value.\<close>

definition numeric_12_2 :: "jsnum \<Rightarrow> error + jsnum" where
  "numeric_12_2 p =
     (case p of
        NaN \<Rightarrow> Inr NaN
      | Num n \<Rightarrow> if \<bar>n\<bar> < 10 ^ 10 then Inr (Num n) else Inl NumericOverflow)"

text \<open>
  The values of the ten parameters of \<^verbatim>\<open>upsert\<close>, converted to their columns; the first
  limit that is exceeded fails the statement.
\<close>

definition column_values :: "listing \<Rightarrow> error + listing" where
  "column_values l =
     (case varchar 500 (title l) of Inl e \<Rightarrow> Inl e | Inr t \<Rightarrow>
      case numeric_12_2 (price l) of Inl e \<Rightarrow> Inl e | Inr p \<Rightarrow>
      case varchar 10 (currency l) of Inl e \<Rightarrow> Inl e | Inr c \<Rightarrow>
      case varchar_opt 100 (mileage l) of Inl e \<Rightarrow> Inl e | Inr m \<Rightarrow>
      case varchar 255 (location l) of Inl e \<Rightarrow> Inl e | Inr loc \<Rightarrow>
      case varchar_opt 100 (listing_id l) of Inl e \<Rightarrow> Inl e | Inr lid \<Rightarrow>
        Inr (l\<lparr> title := t, price := p, currency := c, mileage := m, location := loc,
                listing_id := lid \<rparr>))"

section \<open>\<^verbatim>\<open>CarListingModel\<close>\<close>

text \<open>
  \<^verbatim>\<open>db.query\<close> runs a statement through \<^verbatim>\<open>pool.query\<close>, on a connection of the pool
  that has no transaction open: the statement commits by itself. Every function below
  but the three transaction commands of \<^verbatim>\<open>bulkUpsert\<close> reaches the database this way.
\<close>

text \<open>
  \<^verbatim>\<open>upsert\<close>: \<^verbatim>\<open>INSERT ... ON CONFLICT (source_url) DO UPDATE SET ... RETURNING *\<close>.
  A listing always has its \<^verbatim>\<open>currency\<close>, so the default of the destructuring is not used.
  The insert draws the next \<^verbatim>\<open>id\<close> from the sequence also when it ends as an update or
  fails. A new row takes the column defaults (the three timestamps \<open>now\<close>, \<^verbatim>\<open>is_active\<close>
  true); on a conflict the row with that \<^verbatim>\<open>source_url\<close> keeps \<^verbatim>\<open>id\<close> and \<^verbatim>\<open>created_at\<close>,
  and the trigger \<^verbatim>\<open>update_car_listings_updated_at\<close> sets \<^verbatim>\<open>updated_at\<close>.
\<close>

definition upsert :: "nat \<Rightarrow> listing \<Rightarrow> db \<Rightarrow> (error + row) \<times> db" where
  "upsert now l d =
     (let d1 = d\<lparr> id_seq := id_seq d + 1, statements := statements d + 1 \<rparr> in
      case column_values l of
        Inl e \<Rightarrow> (Inl e, d1)
      | Inr v \<Rightarrow>
          (case find (\<lambda>r. source_url r = source_url v) (car_listings d1) of
             None \<Rightarrow>
               (let r = \<lparr> title = title v, price = price v, currency = currency v,
                           year = year v, mileage = mileage v, location = location v,
                           source_url = source_url v, listing_id = listing_id v,
                           image_url = image_url v, description = description v,
                           row_id = id_seq d1, created_at = now, updated_at = now,
                           last_scraped_at = now, is_active = True \<rparr>
                in (Inr r, d1\<lparr> car_listings := car_listings d1 @ [r] \<rparr>))
           | Some old \<Rightarrow>
               (let r = old\<lparr> title := title v, price := price v, currency := currency v,
                              year := year v, mileage := mileage v, location := location v,
                              listing_id := listing_id v, image_url := image_url v,
                              description := description v, last_scraped_at := now,
                              is_active := True, updated_at := now \<rparr>
                in (Inr r,
                    d1\<lparr> car_listings :=
                          map (\<lambda>x. if source_url x = source_url v then r else x)
                            (car_listings d1) \<rparr>))))"

text \<open>
  The loop of \<^verbatim>\<open>bulkUpsert\<close>: \<open>clock k\<close> is the time of the \<open>k\<close>-th upsert of the call,
  \<open>results\<close> the array pushed to. A failed upsert throws out of the loop.
\<close>

fun upsert_loop ::
  "(nat \<Rightarrow> nat) \<Rightarrow> nat \<Rightarrow> listing list \<Rightarrow> row list \<Rightarrow> db \<Rightarrow> (error + row list) \<times> db" where
  "upsert_loop clock k [] results d = (Inr results, d)"
| "upsert_loop clock k (l # ls) results d =
     (case upsert (clock k) l d of
        (Inl e, d') \<Rightarrow> (Inl e, d')
      | (Inr r, d') \<Rightarrow> upsert_loop clock (Suc k) ls (results @ [r]) d')"

text \<open>
  \<^verbatim>\<open>client.query('BEGIN')\<close>, \<^verbatim>\<open>'COMMIT'\<close> and \<^verbatim>\<open>'ROLLBACK'\<close> on the client of
  \<^verbatim>\<open>getClient\<close>. A transaction holds the writes made through this client since
  \<^verbatim>\<open>BEGIN\<close>; the program makes none through it (\<^verbatim>\<open>upsert\<close> calls \<^verbatim>\<open>db.query\<close>), so
  committing adds nothing to the committed rows and rolling back takes nothing from them.
  Checking the client out of the pool and releasing it in \<^verbatim>\<open>finally\<close> leave the rows as
  they are and have no function here.
\<close>

definition client_begin :: "db \<Rightarrow> db" where
  "client_begin d = d\<lparr> client_tx := True, statements := statements d + 1 \<rparr>"

definition client_commit :: "db \<Rightarrow> db" where
  "client_commit d = d\<lparr> client_tx := False, statements := statements d + 1 \<rparr>"

definition client_rollback :: "db \<Rightarrow> db" where
  "client_rollback d = d\<lparr> client_tx := False, statements := statements d + 1 \<rparr>"

definition bulkUpsert :: "(nat \<Rightarrow> nat) \<Rightarrow> listing list \<Rightarrow> db \<Rightarrow> (error + row list) \<times> db" where
  "bulkUpsert clock listings d =
     (case upsert_loop clock 0 listings [] (client_begin d) of
        (Inr results, d') \<Rightarrow> (Inr results, client_commit d')
      | (Inl e, d') \<Rightarrow> (Inl e, client_rollback d'))"

text \<open>\<^verbatim>\<open>SELECT * FROM car_listings WHERE id = $1 AND is_active = TRUE\<close>\<close>

definition findById :: "int \<Rightarrow> db \<Rightarrow> row option \<times> db" where
  "findById i d =
     (find (\<lambda>r. row_id r = i \<and> is_active r) (car_listings d),
      d\<lparr> statements := statements d + 1 \<rparr>)"

text \<open>
  The object \<^verbatim>\<open>updates\<close>: a key of \<^verbatim>\<open>allowedFields\<close> is present with a value of its
  column's type, or absent (\<open>None\<close>). Its other keys are dropped by the filter on
  \<^verbatim>\<open>Object.keys\<close> and are not represented.
\<close>

record updates =
  upd_title :: "jsstring option"
  upd_price :: "jsnum option"
  upd_currency :: "jsstring option"
  upd_year :: "int option"
  upd_mileage :: "jsstring option"
  upd_location :: "jsstring option"
  upd_description :: "jsstring option"
  upd_image_url :: "jsstring option"

definition fields_of :: "updates \<Rightarrow> string list" where
  "fields_of u =
     (if upd_title u = None then [] else [''title'']) @
     (if upd_price u = None then [] else [''price'']) @
     (if upd_currency u = None then [] else [''currency'']) @
     (if upd_year u = None then [] else [''year'']) @
     (if upd_mileage u = None then [] else [''mileage'']) @
     (if upd_location u = None then [] else [''location'']) @
     (if upd_description u = None then [] else [''description'']) @
     (if upd_image_url u = None then [] else [''image_url''])"

text \<open>The \<^verbatim>\<open>SET\<close> clauses on one row: a column is converted only when it is assigned.\<close>

definition set_columns :: "updates \<Rightarrow> row \<Rightarrow> error + row" where
  "set_columns u r =
     (case (case upd_title u of None \<Rightarrow> Inr (title r) | Some t \<Rightarrow> varchar 500 t) of
        Inl e \<Rightarrow> Inl e | Inr t \<Rightarrow>
      case (case upd_price u of None \<Rightarrow> Inr (price r) | Some p \<Rightarrow> numeric_12_2 p) of
        Inl e \<Rightarrow> Inl e | Inr p \<Rightarrow>
      case (case upd_currency u of None \<Rightarrow> Inr (currency r) | Some c \<Rightarrow> varchar 10 c) of
        Inl e \<Rightarrow> Inl e | Inr c \<Rightarrow>
      case (case upd_mileage u of None \<Rightarrow> Inr (mileage r) | Some m \<Rightarrow> varchar_opt 100 (Some m)) of
        Inl e \<Rightarrow> Inl e | Inr m \<Rightarrow>
      case (case upd_location u of None \<Rightarrow> Inr (location r) | Some x \<Rightarrow> varchar 255 x) of
        Inl e \<Rightarrow> Inl e | Inr loc \<Rightarrow>
        Inr (r\<lparr> title := t, price := p, currency := c,
                year := (case upd_year u of None \<Rightarrow> year r | Some y \<Rightarrow> Some y),
                mileage := m, location := loc,
                description :=
                  (case upd_description u of None \<Rightarrow> description r | Some x \<Rightarrow> Some x),
                image_url :=
                  (case upd_image_url u of None \<Rightarrow> image_url r | Some x \<Rightarrow> Some x) \<rparr>))"

text \<open>
  \<^verbatim>\<open>update\<close>: \<^verbatim>\<open>UPDATE car_listings SET ... WHERE id = $1 AND is_active = TRUE RETURNING *\<close>;
  \<open>Inr None\<close> is the \<^verbatim>\<open>null\<close> returned when no row matched. The trigger sets
  \<^verbatim>\<open>updated_at\<close> of the row that is updated.
\<close>

definition update :: "int \<Rightarrow> updates \<Rightarrow> nat \<Rightarrow> db \<Rightarrow> (error + row option) \<times> db" where
  "update i u now d =
     (if length (fields_of u) = 0 then (Inl NoValidFields, d)
      else
        (let d1 = d\<lparr> statements := statements d + 1 \<rparr> in
         case find (\<lambda>r. row_id r = i \<and> is_active r) (car_listings d1) of
           None \<Rightarrow> (Inr None, d1)
         | Some old \<Rightarrow>
             (case set_columns u old of
                Inl e \<Rightarrow> (Inl e, d1)
              | Inr r0 \<Rightarrow>
                  (let r = r0\<lparr> updated_at := now \<rparr>
                   in (Inr (Some r),
                       d1\<lparr> car_listings :=
                             map (\<lambda>x. if row_id x = i \<and> is_active x then r else x)
                               (car_listings d1) \<rparr>)))))"

text \<open>
  \<^verbatim>\<open>delete\<close>: \<^verbatim>\<open>UPDATE car_listings SET is_active = FALSE WHERE id = $1 RETURNING id\<close>;
  the result is \<^verbatim>\<open>rowCount > 0\<close>. The statement is an \<^verbatim>\<open>UPDATE\<close>, so the trigger sets
  \<^verbatim>\<open>updated_at\<close> of every row it updates.
\<close>

definition delete :: "int \<Rightarrow> nat \<Rightarrow> db \<Rightarrow> bool \<times> db" where
  "delete i now d =
     (let d1 = d\<lparr> statements := statements d + 1 \<rparr>;
          rowCount = length (filter (\<lambda>r. row_id r = i) (car_listings d1))
      in (rowCount > 0,
          d1\<lparr> car_listings :=
                map (\<lambda>r. if row_id r = i then r\<lparr> is_active := False, updated_at := now \<rparr> else r)
                  (car_listings d1) \<rparr>))"

section \<open>\<^verbatim>\<open>CarListingService\<close>\<close>

text \<open>The year check of \<^verbatim>\<open>validateUpdateData\<close>, negated: the years it lets through.\<close>

definition plausible_year :: "int \<Rightarrow> int \<Rightarrow> bool" where
  "plausible_year currentYear y \<longleftrightarrow> \<not> (y < 1900 \<or> y > currentYear + 1)"

text \<open>
  \<^verbatim>\<open>validateUpdateData\<close>; \<open>currentYear\<close> is \<^verbatim>\<open>new Date().getFullYear()\<close>. On values of the
  columns' types \<^verbatim>\<open>parseFloat\<close> and \<^verbatim>\<open>parseInt\<close> give the value back, so the object it
  leaves is the one it was given.
\<close>

definition validateUpdateData :: "int \<Rightarrow> updates \<Rightarrow> error + updates" where
  "validateUpdateData currentYear u =
     (if (case upd_price u of None \<Rightarrow> False | Some NaN \<Rightarrow> True | Some (Num n) \<Rightarrow> n < 0)
      then Inl InvalidPrice
      else if (case upd_year u of None \<Rightarrow> False | Some y \<Rightarrow> \<not> plausible_year currentYear y)
      then Inl InvalidYear
      else if (case upd_title u of None \<Rightarrow> False | Some t \<Rightarrow> length (trim t) = 0)
      then Inl EmptyTitle
      else Inr u)"

definition getListingById :: "int \<Rightarrow> db \<Rightarrow> (error + row) \<times> db" where
  "getListingById i d =
     (case findById i d of
        (None, d') \<Rightarrow> (Inl ListingNotFound, d')
      | (Some listing, d') \<Rightarrow> (Inr listing, d'))"

definition updateListing :: "int \<Rightarrow> int \<Rightarrow> updates \<Rightarrow> nat \<Rightarrow> db \<Rightarrow> (error + row) \<times> db" where
  "updateListing currentYear i u now d =
     (case validateUpdateData currentYear u of
        Inl e \<Rightarrow> (Inl e, d)
      | Inr u' \<Rightarrow>
          (case update i u' now d of
             (Inl e, d') \<Rightarrow> (Inl e, d')
           | (Inr None, d') \<Rightarrow> (Inl ListingNotFoundOrInactive, d')
           | (Inr (Some listing), d') \<Rightarrow> (Inr listing, d')))"

definition deleteListing :: "int \<Rightarrow> nat \<Rightarrow> db \<Rightarrow> (error + unit) \<times> db" where
  "deleteListing i now d =
     (case delete i now d of
        (False, d') \<Rightarrow> (Inl ListingNotFound, d')
      | (True, d') \<Rightarrow> (Inr (), d'))"

section \<open>\<^verbatim>\<open>FacebookScraper\<close>\<close>

text \<open>
  The sources hold two versions of the scraper. The model follows the first, whose
  extractor keeps the set of seen ids; the two agree on \<^verbatim>\<open>initialize\<close>, \<^verbatim>\<open>cleanup\<close>,
  \<^verbatim>\<open>normalizeListingData\<close> and \<^verbatim>\<open>scrapeAndStore\<close>.
\<close>

text \<open>
  What the browser and the page do in one run: whether each call of puppeteer resolves,
  how the \<open>k\<close>-th call of \<^verbatim>\<open>page.goto\<close> ends, the anchors the extractor finds, and the
  configured \<^verbatim>\<open>maxListings\<close>.
\<close>

datatype nav_result = Settled | TimedOut | NavFailed

record env =
  launch_ok :: bool
  newPage_ok :: bool
  setViewport_ok :: bool
  setExtraHTTPHeaders_ok :: bool
  goto_result :: "nat \<Rightarrow> nav_result"
  autoScroll_ok :: bool
  evaluate_ok :: bool
  listingLinks :: "anchor list"
  maxListings :: int

text \<open>
  The scraper object (\<^verbatim>\<open>this.browser\<close> and \<^verbatim>\<open>this.page\<close>, set or \<^verbatim>\<open>null\<close>) with what
  a run leaves behind: whether the browser it launched is running, and how often
  \<^verbatim>\<open>page.goto\<close>, \<^verbatim>\<open>cleanup\<close> and \<^verbatim>\<open>browser.close\<close> were called.
\<close>

record scraper =
  browser :: bool
  page :: bool
  browser_running :: bool
  goto_calls :: nat
  cleanup_calls :: nat
  close_calls :: nat

text \<open>The constructor.\<close>

definition new_scraper :: scraper where
  "new_scraper =
     \<lparr> browser = False, page = False, browser_running = False,
       goto_calls = 0, cleanup_calls = 0, close_calls = 0 \<rparr>"

text \<open>\<^verbatim>\<open>initialize\<close>: its \<^verbatim>\<open>catch\<close> logs and throws the error again.\<close>

definition initialize :: "env \<Rightarrow> scraper \<Rightarrow> (error + unit) \<times> scraper" where
  "initialize e s =
     (if \<not> launch_ok e then (Inl LaunchError, s)
      else
        (let s1 = s\<lparr> browser := True, browser_running := True \<rparr> in
         if \<not> newPage_ok e then (Inl NewPageError, s1)
         else
           (let s2 = s1\<lparr> page := True \<rparr> in
            if \<not> setViewport_ok e then (Inl SetViewportError, s2)
            else if \<not> setExtraHTTPHeaders_ok e then (Inl SetHeadersError, s2)
            else (Inr (), s2))))"

text \<open>
  The \<^verbatim>\<open>try\<close> block of \<^verbatim>\<open>scrape\<close> with its \<^verbatim>\<open>catch\<close>, which logs and throws the error
  again. \<^verbatim>\<open>waitForSelector\<close> has its own \<^verbatim>\<open>catch\<close> that swallows the error, so it has
  no branch here.
\<close>

definition scrape_try :: "env \<Rightarrow> scraper \<Rightarrow> (error + listing list) \<times> scraper" where
  "scrape_try e s =
     (case initialize e s of
        (Inl err, s1) \<Rightarrow> (Inl err, s1)
      | (Inr _, s1) \<Rightarrow>
          (let s2 = s1\<lparr> goto_calls := goto_calls s1 + 1 \<rparr> in
           case goto_result e (goto_calls s1) of
             TimedOut \<Rightarrow> (Inl NavigationTimeout, s2)
           | NavFailed \<Rightarrow> (Inl NavigationError, s2)
           | Settled \<Rightarrow>
               if \<not> autoScroll_ok e then (Inl ScrollError, s2)
               else if \<not> evaluate_ok e then (Inl EvaluateError, s2)
               else
                 (let scrapedData = extractor (maxListings e) (listingLinks e)
                  in (Inr (normalize_loop scrapedData []), s2))))"

text \<open>\<^verbatim>\<open>cleanup\<close>\<close>

definition cleanup :: "scraper \<Rightarrow> scraper" where
  "cleanup s =
     (let s1 = s\<lparr> cleanup_calls := cleanup_calls s + 1 \<rparr> in
      if browser s1
      then s1\<lparr> browser_running := False, close_calls := close_calls s1 + 1 \<rparr>
      else s1)"

text \<open>\<^verbatim>\<open>scrape\<close>: the \<^verbatim>\<open>finally\<close> block runs after the \<^verbatim>\<open>try\<close> block however it ends.\<close>

definition scrape :: "env \<Rightarrow> scraper \<Rightarrow> (error + listing list) \<times> scraper" where
  "scrape e s = (case scrape_try e s of (r, s1) \<Rightarrow> (r, cleanup s1))"

text \<open>What \<^verbatim>\<open>scrapeAndStore\<close> returns; \<^verbatim>\<open>listings\<close> is absent from the empty result.\<close>

record scrape_result =
  success :: bool
  count :: nat
  listings :: "row list option"

definition scrapeAndStore ::
  "env \<Rightarrow> (nat \<Rightarrow> nat) \<Rightarrow> db \<Rightarrow> (error + scrape_result) \<times> scraper \<times> db" where
  "scrapeAndStore e clock d =
     (case scrape e new_scraper of
        (Inl err, s) \<Rightarrow> (Inl err, s, d)
      | (Inr ls, s) \<Rightarrow>
          if length ls = 0 then (Inr \<lparr> success = True, count = 0, listings = None \<rparr>, s, d)
          else
            (case bulkUpsert clock ls d of
               (Inl err, d') \<Rightarrow> (Inl err, s, d')
             | (Inr stored, d') \<Rightarrow>
                 (Inr \<lparr> success = True, count = length stored, listings = Some stored \<rparr>,
                  s, d')))"

section \<open>Predicates of the statements\<close>

text \<open>The browser starts: every call of \<^verbatim>\<open>initialize\<close> resolves.\<close>

definition initialized :: "env \<Rightarrow> bool" where
  "initialized e \<longleftrightarrow>
     launch_ok e \<and> newPage_ok e \<and> setViewport_ok e \<and> setExtraHTTPHeaders_ok e"

text \<open>
  A fresh scraper reaches the normalization loop: the browser starts, the first
  navigation settles, scrolling and the extractor run.
\<close>

definition page_loads :: "env \<Rightarrow> bool" where
  "page_loads e \<longleftrightarrow>
     initialized e \<and> goto_result e 0 = Settled \<and> autoScroll_ok e \<and> evaluate_ok e"

text \<open>
  The invariant of the \<^verbatim>\<open>forEach\<close> loop after the anchors \<open>pre\<close>: the ids of the results
  are distinct and among the seen ids, the seen ids are those of the anchors visited,
  and the url of a result is the \<^verbatim>\<open>href\<close> of the first anchor visited with its id.
\<close>

definition extract_inv :: "anchor list \<Rightarrow> rawData list \<times> jsstring list \<Rightarrow> bool" where
  "extract_inv pre st \<longleftrightarrow>
     distinct (map raw_listing_id (fst st)) \<and>
     raw_listing_id ` set (fst st) \<subseteq> set (snd st) \<and>
     set (snd st) = {i. \<exists>a \<in> set pre. item_match (href a) = Some i} \<and>
     (\<forall>r \<in> set (fst st).
        map_option href (find (\<lambda>a. item_match (href a) = Some (raw_listing_id r)) pre) =
          Some (url r))"

section \<open>Example inputs\<close>

definition candidate :: "jsstring \<Rightarrow> jsstring \<Rightarrow> rawData" where
  "candidate t p =
     \<lparr> raw_title = t, price_raw = p, url = str ''fb.com/marketplace/item/42/'',
       raw_image_url = None, raw_listing_id = str ''42'', raw_location = None,
       raw_description = None \<rparr>"

definition normalized :: "jsstring \<Rightarrow> jsnum \<Rightarrow> jsstring \<Rightarrow> int option \<Rightarrow> listing" where
  "normalized t p c y =
     \<lparr> title = t, price = p, currency = c, year = y, mileage = None,
       location = str ''Manila'', source_url = str ''fb.com/marketplace/item/42/'',
       listing_id = Some (str ''42''), image_url = None, description = None \<rparr>"

definition listing_a :: listing where
  "listing_a =
     \<lparr> title = str ''2015 Toyota Vios'', price = Num 500000, currency = str ''PHP'',
       year = Some 2015, mileage = None, location = str ''Manila'',
       source_url = str ''fb.com/marketplace/item/1/'', listing_id = Some (str ''1''),
       image_url = None, description = None \<rparr>"

text \<open>A price of eleven digits, as the price text \<^verbatim>\<open>PHP 99,999,999,999\<close> gives.\<close>

definition listing_b :: listing where
  "listing_b =
     \<lparr> title = str ''2016 Honda City'', price = Num 99999999999, currency = str ''PHP'',
       year = Some 2016, mileage = None, location = str ''Manila'',
       source_url = str ''fb.com/marketplace/item/2/'', listing_id = Some (str ''2''),
       image_url = None, description = None \<rparr>"

text \<open>
  The row of \<open>listing_a\<close> with \<^verbatim>\<open>id\<close> 1, inserted at time \<open>c\<close>, last updated at time \<open>u\<close>.
\<close>

definition row_a :: "nat \<Rightarrow> nat \<Rightarrow> bool \<Rightarrow> row" where
  "row_a c u a =
     \<lparr> title = str ''2015 Toyota Vios'', price = Num 500000, currency = str ''PHP'',
       year = Some 2015, mileage = None, location = str ''Manila'',
       source_url = str ''fb.com/marketplace/item/1/'', listing_id = Some (str ''1''),
       image_url = None, description = None, row_id = 1, created_at = c, updated_at = u,
       last_scraped_at = c, is_active = a \<rparr>"

definition empty_db :: db where
  "empty_db = \<lparr> car_listings = [], id_seq = 0, client_tx = False, statements = 0 \<rparr>"

text \<open>The database after \<open>listing_a\<close> was stored at time 1, and after its row was deleted at time 2.\<close>

definition db_a :: db where
  "db_a = \<lparr> car_listings = [row_a 1 1 True], id_seq = 1, client_tx = False, statements = 1 \<rparr>"

definition db_deleted :: db where
  "db_deleted =
     \<lparr> car_listings = [row_a 1 2 False], id_seq = 1, client_tx = False, statements = 2 \<rparr>"

text \<open>The objects \<^verbatim>\<open>{}\<close> and \<^verbatim>\<open>{price: 450000}\<close>.\<close>

definition no_updates :: updates where
  "no_updates =
     \<lparr> upd_title = None, upd_price = None, upd_currency = None, upd_year = None,
       upd_mileage = None, upd_location = None, upd_description = None,
       upd_image_url = None \<rparr>"

definition new_price :: updates where
  "new_price = no_updates\<lparr> upd_price := Some (Num 450000) \<rparr>"

text \<open>A run in which every call resolves, and one whose first navigation times out.\<close>

definition env_ok :: "anchor list \<Rightarrow> env" where
  "env_ok links =
     \<lparr> launch_ok = True, newPage_ok = True, setViewport_ok = True,
       setExtraHTTPHeaders_ok = True, goto_result = (\<lambda>k. Settled), autoScroll_ok = True,
       evaluate_ok = True, listingLinks = links, maxListings = 50 \<rparr>"

definition env_timeout_once :: env where
  "env_timeout_once =
     (env_ok [])\<lparr> goto_result := (\<lambda>k. if k = 0 then TimedOut else Settled) \<rparr>"

text \<open>A page with two anchors to item 7, in a container with a price and a title.\<close>

definition item7 :: "jsstring \<Rightarrow> anchor" where
  "item7 q =
     \<lparr> href = str ''/marketplace/item/7/'' @ q,
       parent5 = Some \<lparr> spans = [peso # str ''500,000'', str ''2015 Toyota Vios''],
                        first_img = None \<rparr> \<rparr>"

definition dup_links :: "anchor list" where
  "dup_links = [item7 (str ''?a''), item7 (str ''?b'')]"

section \<open>Evaluation on concrete inputs\<close>

lemmas class_defs =
  isDigit_def isUpper_def isWordChar_def isSpace_def isPriceSep_def isDigitComma_def
  lowerAscii_def peso_def dollar_def euro_def pound_def comma_def breadcrumb_def str_def

lemmas pattern_defs =
  price_at_def price_tail_def year_match_def year_at_def wordBoundary_def isWordOpt_def
  mileage_at_def extractListingId_def item_at_def parseFloat_digits_def parseInt_digits_def
  digits_value_def or_null_def or_default_def

lemmas column_defs =
  column_values_def varchar_def varchar_opt_def numeric_12_2_def isHighSurrogate_def
  isLowSurrogate_def

lemma normalize_usd:
  "normalizeListingData (candidate (str ''2020 Toyota Vios'') (str ''USD 45,000'')) =
     Some (normalized (str ''2020 Toyota Vios'') (Num 45000) (str ''USD'') (Some 2020))"
  by (simp add: normalizeListingData_def candidate_def normalized_def pattern_defs class_defs)

lemma normalize_peso:
  "normalizeListingData (candidate (str ''Toyota Corolla'') (peso # str ''1,250,000'')) =
     Some (normalized (str ''Toyota Corolla'') (Num 1250000) (str ''PHP'') None)"
  by (simp add: normalizeListingData_def candidate_def normalized_def pattern_defs class_defs)

lemma normalize_2099:
  "normalizeListingData (candidate (str ''2099 Toyota Vios'') (peso # str ''500,000'')) =
     Some (normalized (str ''2099 Toyota Vios'') (Num 500000) (str ''PHP'') (Some 2099))"
  by (simp add: normalizeListingData_def candidate_def normalized_def pattern_defs class_defs)

lemma normalize_free:
  "normalizeListingData (candidate (str ''2020 Toyota Vios'') (str ''Free'')) = None"
  by (simp add: normalizeListingData_def candidate_def pattern_defs class_defs)

section \<open>The year of a normalized listing\<close>

lemma year_at_shape:
  "year_at prev s \<Longrightarrow>
     \<exists>c d. take 4 s = [49, 57, c, d] \<and> isDigit c \<and> isDigit d \<or>
           take 4 s = [50, 48, c, d] \<and> isDigit c \<and> isDigit d"
  by (auto simp: year_at_def split: list.splits)

lemma year_scan_shape:
  "year_scan prev s = Some m \<Longrightarrow>
     \<exists>c d. (m = [49, 57, c, d] \<or> m = [50, 48, c, d]) \<and> isDigit c \<and> isDigit d"
proof (induction prev s rule: year_scan.induct)
  case (1 prev)
  then show ?case by simp
next
  case (2 prev c cs)
  show ?case
  proof (cases "year_at prev (c # cs)")
    case True
    with 2 have "m = take 4 (c # cs)" by simp
    with year_at_shape [OF True] show ?thesis by auto
  next
    case False
    with 2 show ?thesis by simp
  qed
qed

lemma year_digits_range:
  "isDigit c \<Longrightarrow> isDigit d \<Longrightarrow> m = [49, 57, c, d] \<or> m = [50, 48, c, d] \<Longrightarrow>
     1900 \<le> parseInt_digits m \<and> parseInt_digits m \<le> 2099"
  by (auto simp: parseInt_digits_def digits_value_def isDigit_def)

lemma year_match_range:
  "year_match t = Some m \<Longrightarrow> 1900 \<le> parseInt_digits m \<and> parseInt_digits m \<le> 2099"
  unfolding year_match_def using year_scan_shape year_digits_range by blast

text \<open>
  C3, as the spec states it, fails: the year of a normalized listing is not compared with
  the current year. In 2026 the title \<^verbatim>\<open>2099 Toyota Vios\<close> gives the year 2099, which the
  check of \<^verbatim>\<open>validateUpdateData\<close> for that year (1900 to 2027) would refuse; the year is
  not \<^verbatim>\<open>null\<close>.
\<close>

theorem normalize_year_unchecked:
  "map_option year
     (normalizeListingData (candidate (str ''2099 Toyota Vios'') (peso # str ''500,000''))) =
     Some (Some 2099) \<and>
   \<not> plausible_year 2026 2099"
  by (simp add: normalize_2099 normalized_def plausible_year_def)

text \<open>
  C3, amended: for every raw candidate that normalization accepts, the year is \<^verbatim>\<open>null\<close>
  when the title has no match of \<^verbatim>\<open>\b(19|20)\d{2}\b\<close>, and otherwise the number of the
  first match, an integer from 1900 to 2099, whatever the current year is.
\<close>

theorem normalize_year:
  assumes "normalizeListingData rawData = Some l"
  shows "(year_match (raw_title rawData) = None \<and> year l = None) \<or>
         (\<exists>m. year_match (raw_title rawData) = Some m \<and> year l = Some (parseInt_digits m) \<and>
              1900 \<le> parseInt_digits m \<and> parseInt_digits m \<le> 2099)"
proof (cases "year_match (raw_title rawData)")
  case None
  with assms show ?thesis
    by (auto simp: normalizeListingData_def split: option.splits)
next
  case (Some m)
  with assms have "year l = Some (parseInt_digits m)"
    by (auto simp: normalizeListingData_def split: option.splits)
  with Some year_match_range [OF Some] show ?thesis by simp
qed

theorem normalize_year_witness:
  "normalizeListingData (candidate (str ''2020 Toyota Vios'') (str ''USD 45,000'')) =
     Some (normalized (str ''2020 Toyota Vios'') (Num 45000) (str ''USD'') (Some 2020)) \<and>
   year_match (str ''2020 Toyota Vios'') = Some (str ''2020'') \<and>
   1900 \<le> parseInt_digits (str ''2020'') \<and> parseInt_digits (str ''2020'') \<le> 2099"
proof -
  have y: "year_match (raw_title (candidate (str ''2020 Toyota Vios'') (str ''USD 45,000''))) =
      Some (str ''2020'')"
    by (simp add: candidate_def pattern_defs class_defs)
  from normalize_year [OF normalize_usd] y
  have "1900 \<le> parseInt_digits (str ''2020'') \<and> parseInt_digits (str ''2020'') \<le> 2099"
    by auto
  with normalize_usd y show ?thesis by (simp add: candidate_def)
qed

section \<open>The price of a normalized listing\<close>

lemma digitComma_not_sep: "isDigitComma c \<Longrightarrow> \<not> isPriceSep c"
  by (auto simp: isDigitComma_def isPriceSep_def isDigit_def isSpace_def comma_def peso_def
      dollar_def euro_def pound_def)

lemma digitComma_not_upper: "isDigitComma c \<Longrightarrow> \<not> isUpper c"
  by (auto simp: isDigitComma_def isDigit_def isUpper_def comma_def)

lemma sep_not_upper: "isPriceSep c \<Longrightarrow> \<not> isUpper c"
  by (auto simp: isPriceSep_def isUpper_def isSpace_def peso_def dollar_def euro_def pound_def)

lemma price_tail_shape:
  assumes "list_all isPriceSep seps" and "g \<noteq> []" and "list_all isDigitComma g"
    and "rest = [] \<or> \<not> isDigitComma (hd rest)"
  shows "price_tail (seps @ g @ rest) = Some g"
proof -
  from assms(2) obtain x g' where g: "g = x # g'" by (cases g) auto
  with assms(3) have x: "\<not> isPriceSep x" by (simp add: digitComma_not_sep)
  have "dropWhile isPriceSep (seps @ g @ rest) = g @ rest"
    using assms(1) x by (simp add: g list_all_iff)
  moreover have "takeWhile isDigitComma (g @ rest) = g"
    using assms(3,4) by (auto simp: list_all_iff takeWhile_eq_Nil_iff)
  ultimately show ?thesis using assms(2) by (simp add: price_tail_def)
qed

lemma price_at_no_code:
  assumes "list_all isPriceSep seps" and "g \<noteq> []" and "list_all isDigitComma g"
    and "rest = [] \<or> \<not> isDigitComma (hd rest)"
  shows "price_at (seps @ g @ rest) = Some (None, g)"
proof -
  define s where "s = seps @ g @ rest"
  have "\<not> isUpper (hd s)"
    using assms(1,2,3) unfolding s_def
    by (cases seps; cases g) (auto simp: sep_not_upper digitComma_not_upper)
  moreover have "s \<noteq> []" using assms(2) by (simp add: s_def)
  ultimately have "\<not> list_all isUpper (take 3 s)"
    by (cases s) auto
  moreover have "price_tail s = Some g"
    unfolding s_def by (rule price_tail_shape [OF assms])
  ultimately have "price_at s = Some (None, g)" by (simp add: price_at_def)
  then show ?thesis by (simp add: s_def)
qed

lemma price_at_code:
  assumes "length code = 3" and "list_all isUpper code"
    and "list_all isPriceSep seps" and "g \<noteq> []" and "list_all isDigitComma g"
    and "rest = [] \<or> \<not> isDigitComma (hd rest)"
  shows "price_at (code @ seps @ g @ rest) = Some (Some code, g)"
  using assms(1,2) by (simp add: price_at_def price_tail_shape [OF assms(3-6)])

lemma price_match_at: "s \<noteq> [] \<Longrightarrow> price_at s = Some m \<Longrightarrow> price_match s = Some m"
  by (cases s) auto

lemma strip_commas:
  "list_all isDigitComma g \<Longrightarrow> filter (\<lambda>c. c \<noteq> comma) g = filter isDigit g"
  by (induction g) (auto simp: isDigitComma_def isDigit_def comma_def)

lemma price_tail_none: "\<forall>c \<in> set s. \<not> isDigitComma c \<Longrightarrow> price_tail s = None"
proof -
  assume a: "\<forall>c \<in> set s. \<not> isDigitComma c"
  define r where "r = dropWhile isPriceSep s"
  have sub: "set r \<subseteq> set s" unfolding r_def by (auto dest: set_dropWhileD)
  have "takeWhile isDigitComma r = []"
  proof (cases r)
    case Nil
    then show ?thesis by simp
  next
    case (Cons x xs)
    with sub have "x \<in> set s" by auto
    with a Cons show ?thesis by simp
  qed
  then show ?thesis by (simp add: price_tail_def r_def)
qed

lemma price_at_none: "\<forall>c \<in> set s. \<not> isDigitComma c \<Longrightarrow> price_at s = None"
proof -
  assume a: "\<forall>c \<in> set s. \<not> isDigitComma c"
  then have "\<forall>c \<in> set (drop 3 s). \<not> isDigitComma c" by (meson in_set_dropD)
  with a show ?thesis by (simp add: price_at_def price_tail_none)
qed

lemma price_match_none: "\<forall>c \<in> set s. \<not> isDigitComma c \<Longrightarrow> price_match s = None"
  by (induction s) (simp_all add: price_at_none)

text \<open>
  C4 holds on the price texts the spec describes, and fails on a text whose only match
  of \<^verbatim>\<open>[\d,]+\<close> is a comma. The extractor takes \<^verbatim>\<open>\u20b1,\<close> for a price text, and
  \<^verbatim>\<open>normalizeListingData\<close> does not return \<^verbatim>\<open>null\<close> for it, although it holds no digit:
  it returns a listing whose price is \<^verbatim>\<open>NaN\<close>.
\<close>

theorem normalize_comma_price:
  "isPriceText [peso, comma] \<and>
   normalizeListingData (candidate (str ''2020 Toyota Vios'') [peso, comma]) =
     Some (normalized (str ''2020 Toyota Vios'') NaN (str ''PHP'') (Some 2020))"
proof -
  have "isPriceText [peso, comma]"
    by (simp add: isPriceText_def price_prefixed_def currency_prefix_def class_defs)
  moreover have
    "normalizeListingData (candidate (str ''2020 Toyota Vios'') [peso, comma]) =
       Some (normalized (str ''2020 Toyota Vios'') NaN (str ''PHP'') (Some 2020))"
    by (simp add: normalizeListingData_def candidate_def normalized_def pattern_defs class_defs)
  ultimately show ?thesis by simp
qed

text \<open>
  The part of C4 that holds, on the texts of the spec's pattern: an optional code of
  three capital letters, separators, a group of digits and commas with at least one
  digit, and a rest that does not go on with a digit or a comma. The price is the number
  the digits of the group denote, the currency is the code, or \<^verbatim>\<open>PHP\<close> without one.
\<close>

theorem price_of_pattern:
  assumes "code = [] \<or> (length code = 3 \<and> list_all isUpper code)"
    and "list_all isPriceSep seps" and "list_all isDigitComma g" and "\<exists>c \<in> set g. isDigit c"
    and "rest = [] \<or> \<not> isDigitComma (hd rest)"
    and "price_raw rawData = code @ seps @ g @ rest"
  shows "\<exists>l. normalizeListingData rawData = Some l \<and>
             price l = Num (int (digits_value (filter isDigit g))) \<and>
             currency l = (if code = [] then str ''PHP'' else code)"
proof -
  from assms(4) have g: "g \<noteq> []" by auto
  have m: "price_match (price_raw rawData) = Some (if code = [] then None else Some code, g)"
  proof (cases "code = []")
    case True
    with assms(6) g price_at_no_code [OF assms(2) g assms(3,5)] show ?thesis
      by (simp add: price_match_at)
  next
    case False
    with assms(1) have c: "length code = 3" "list_all isUpper code" by auto
    have "code @ seps @ g @ rest \<noteq> []" using g by simp
    with False assms(6) price_at_code [OF c assms(2) g assms(3,5)] show ?thesis
      by (simp add: price_match_at)
  qed
  from assms(4) have "filter isDigit g \<noteq> []" by (auto simp: filter_empty_conv)
  with m show ?thesis
    by (simp add: normalizeListingData_def strip_commas [OF assms(3)] parseFloat_digits_def
        or_default_def or_null_def)
qed

theorem price_of_pattern_witness:
  "\<exists>l. normalizeListingData (candidate (str ''2020 Toyota Vios'') (str ''USD 45,000'')) = Some l \<and>
       price l = Num 45000 \<and> currency l = str ''USD''"
proof -
  have "\<exists>l. normalizeListingData (candidate (str ''2020 Toyota Vios'') (str ''USD 45,000'')) =
          Some l \<and>
        price l = Num (int (digits_value (filter isDigit (str ''45,000'')))) \<and>
        currency l = (if str ''USD'' = [] then str ''PHP'' else str ''USD'')"
    by (rule price_of_pattern [where seps = "str '' ''" and rest = "[]"])
      (simp_all add: candidate_def class_defs)
  then show ?thesis by (simp add: digits_value_def class_defs)
qed

text \<open>
  The other part of C4 that holds: a price text with no digit and no comma is not
  normalized, \<^verbatim>\<open>normalizeListingData\<close> returns \<^verbatim>\<open>null\<close>.
\<close>

theorem price_without_digits:
  assumes "\<forall>c \<in> set (price_raw rawData). \<not> isDigitComma c"
  shows "normalizeListingData rawData = None"
  by (simp add: normalizeListingData_def price_match_none [OF assms])

theorem price_without_digits_witness:
  "normalizeListingData (candidate (str ''2020 Toyota Vios'') (str ''Free'')) = None"
  by (rule price_without_digits) (simp add: candidate_def class_defs)

section \<open>The normalization loop\<close>

lemma normalize_None_iff:
  "normalizeListingData c = None \<longleftrightarrow> price_match (price_raw c) = None"
  by (auto simp: normalizeListingData_def split: option.splits)

lemma normalize_loop_append:
  "normalize_loop cs acc =
     acc @ map (the \<circ> normalizeListingData)
             (filter (\<lambda>c. price_match (price_raw c) \<noteq> None) cs)"
proof (induction cs arbitrary: acc)
  case Nil
  show ?case by simp
next
  case (Cons c cs)
  show ?case
  proof (cases "normalizeListingData c")
    case None
    with Cons show ?thesis by (simp add: normalize_None_iff [symmetric])
  next
    case (Some l)
    with Cons show ?thesis by (simp add: normalize_None_iff [symmetric])
  qed
qed

text \<open>
  C8: for every batch of raw candidates the loop returns, in their order, the
  normalized listings of exactly the candidates whose price text the price pattern
  matches; a candidate is dropped if and only if its price text has no match. The loop
  has no failing branch: the result is a list for every batch.
\<close>

theorem normalization_contained:
  "normalize_loop cs [] =
     map (the \<circ> normalizeListingData) (filter (\<lambda>c. price_match (price_raw c) \<noteq> None) cs) \<and>
   (\<forall>c. (normalizeListingData c = None) = (price_match (price_raw c) = None))"
  by (simp add: normalize_loop_append normalize_None_iff)

theorem normalization_contained_witness:
  "normalize_loop
     [candidate (str ''2020 Toyota Vios'') (str ''USD 45,000''),
      candidate (str ''2020 Toyota Vios'') (str ''Free''),
      candidate (str ''Toyota Corolla'') (peso # str ''1,250,000'')] [] =
     [normalized (str ''2020 Toyota Vios'') (Num 45000) (str ''USD'') (Some 2020),
      normalized (str ''Toyota Corolla'') (Num 1250000) (str ''PHP'') None]"
proof -
  have 1: "price_match (price_raw (candidate (str ''2020 Toyota Vios'') (str ''USD 45,000''))) \<noteq> None"
    using normalize_usd by (simp add: normalize_None_iff [symmetric])
  have 2: "price_match (price_raw (candidate (str ''2020 Toyota Vios'') (str ''Free''))) = None"
    using normalize_free by (simp add: normalize_None_iff [symmetric])
  have 3: "price_match (price_raw (candidate (str ''Toyota Corolla'') (peso # str ''1,250,000''))) \<noteq> None"
    using normalize_peso by (simp add: normalize_None_iff [symmetric])
  from 1 2 3 show ?thesis
    by (simp only: conjunct1 [OF normalization_contained] filter.simps if_True if_False
        list.map comp_apply normalize_usd normalize_peso option.sel simp_thms)
qed

section \<open>The extractor emits one candidate for an id\<close>

lemma extract_link_cases:
  "extract_link n a (results, seenIds) = (results', seenIds') \<Longrightarrow>
     (results' = results \<and> seenIds' = seenIds \<and>
        (item_match (href a) = None \<or> (\<exists>i \<in> set seenIds. item_match (href a) = Some i))) \<or>
     (\<exists>i. item_match (href a) = Some i \<and> i \<notin> set seenIds \<and> seenIds' = seenIds @ [i] \<and>
          (results' = results \<or>
           (\<exists>r. results' = results @ [r] \<and> raw_listing_id r = i \<and> url r = href a)))"
  by (auto simp: extract_link_def Let_def split: option.splits if_splits prod.splits)

lemma find_snoc:
  "find P (xs @ [x]) =
     (case find P xs of Some y \<Rightarrow> Some y | None \<Rightarrow> if P x then Some x else None)"
  by (induction xs) auto

lemma extract_link_inv:
  assumes "extract_inv pre st"
  shows "extract_inv (pre @ [a]) (extract_link n a st)"
proof -
  obtain results seenIds where st: "st = (results, seenIds)" by (cases st)
  obtain results' seenIds' where st': "extract_link n a (results, seenIds) = (results', seenIds')"
    by (cases "extract_link n a (results, seenIds)")
  from assms have inv: "distinct (map raw_listing_id results) \<and>
     raw_listing_id ` set results \<subseteq> set seenIds \<and>
     set seenIds = {i. \<exists>a \<in> set pre. item_match (href a) = Some i} \<and>
     (\<forall>r \<in> set results.
        map_option href (find (\<lambda>a. item_match (href a) = Some (raw_listing_id r)) pre) =
          Some (url r))"
    unfolding extract_inv_def st fst_conv snd_conv .
  then have d: "distinct (map raw_listing_id results)"
    and s: "raw_listing_id ` set results \<subseteq> set seenIds"
    and k: "set seenIds = {i. \<exists>a \<in> set pre. item_match (href a) = Some i}"
    and f: "\<forall>r \<in> set results.
        map_option href (find (\<lambda>a. item_match (href a) = Some (raw_listing_id r)) pre) =
          Some (url r)"
    by blast+
  have old: "\<forall>r \<in> set results.
        map_option href
          (find (\<lambda>a. item_match (href a) = Some (raw_listing_id r)) (pre @ [a])) =
          Some (url r)"
    using f by (auto simp: find_snoc split: option.splits)
  from extract_link_cases [OF st'] consider
      (skip) "results' = results" "seenIds' = seenIds"
        "item_match (href a) = None \<or> (\<exists>i \<in> set seenIds. item_match (href a) = Some i)"
    | (seen) i where "item_match (href a) = Some i" "i \<notin> set seenIds"
        "seenIds' = seenIds @ [i]" "results' = results"
    | (emit) i r where "item_match (href a) = Some i" "i \<notin> set seenIds"
        "seenIds' = seenIds @ [i]" "results' = results @ [r]" "raw_listing_id r = i"
        "url r = href a"
    by blast
  then show ?thesis
  proof cases
    case skip
    with d s k old show ?thesis
      unfolding st st' extract_inv_def by auto
  next
    case seen
    with d s k old show ?thesis
      unfolding st st' extract_inv_def by auto
  next
    case emit
    from emit(2) k have "\<forall>b \<in> set pre. item_match (href b) \<noteq> Some i" by auto
    then have "find (\<lambda>a. item_match (href a) = Some i) pre = None"
      by (simp add: find_None_iff)
    with emit have new:
      "map_option href
         (find (\<lambda>a. item_match (href a) = Some (raw_listing_id r)) (pre @ [a])) =
         Some (url r)"
      by (simp add: find_snoc)
    from emit(2,5) s have fresh: "raw_listing_id r \<notin> raw_listing_id ` set results" by auto
    from d fresh have 1: "distinct (map raw_listing_id results')" by (simp add: emit(4))
    from s emit(3,5) have 2: "raw_listing_id ` set results' \<subseteq> set seenIds'"
      by (auto simp: emit(4))
    from k emit(1,3) have 3:
      "set seenIds' = {i. \<exists>a \<in> set (pre @ [a]). item_match (href a) = Some i}"
      by auto
    from old new have 4: "\<forall>r \<in> set results'.
        map_option href
          (find (\<lambda>a. item_match (href a) = Some (raw_listing_id r)) (pre @ [a])) =
          Some (url r)"
      by (simp add: emit(4))
    from 1 2 3 4 show ?thesis unfolding st st' extract_inv_def by simp
  qed
qed

lemma foldl_extract_inv:
  "extract_inv pre st \<Longrightarrow>
     extract_inv (pre @ links) (foldl (\<lambda>st a. extract_link n a st) st links)"
proof (induction links arbitrary: pre st)
  case Nil
  then show ?case by simp
next
  case (Cons a links)
  from Cons.IH [OF extract_link_inv [OF Cons.prems, of a n]] show ?case by simp
qed

lemma extractor_dup_links:
  "extractor 50 dup_links =
     [\<lparr> raw_title = str ''2015 Toyota Vios'', price_raw = peso # str ''500,000'',
         url = str ''/marketplace/item/7/?a'', raw_image_url = None,
         raw_listing_id = str ''7'', raw_location = None, raw_description = None \<rparr>]"
  by (simp add: extractor_def extract_link_def dup_links_def item7_def item_at_def trim_def
      isPriceText_def isTitleText_def price_prefixed_def price_suffixed_def
      currency_prefix_def imageUrl_of_def class_defs)

text \<open>
  C5: for every list of anchors and every cap, the candidates one extraction emits have
  pairwise different ids, and each candidate carries the \<^verbatim>\<open>href\<close> of the first anchor
  of the page with its id: anchors that come later with that id add nothing.
\<close>

theorem extractor_one_per_id:
  "distinct (map raw_listing_id (extractor n links)) \<and>
   (\<forall>r \<in> set (extractor n links).
      map_option href (find (\<lambda>a. item_match (href a) = Some (raw_listing_id r)) links) =
        Some (url r))"
proof -
  have "extract_inv [] ([], [])" by (simp add: extract_inv_def)
  from foldl_extract_inv [OF this, of links n] show ?thesis
    by (simp add: extractor_def extract_inv_def)
qed

theorem extractor_one_per_id_witness:
  "map href dup_links = [str ''/marketplace/item/7/?a'', str ''/marketplace/item/7/?b''] \<and>
   map url (extractor 50 dup_links) = [str ''/marketplace/item/7/?a''] \<and>
   distinct (map raw_listing_id (extractor 50 dup_links))"
proof -
  from extractor_one_per_id [of 50 dup_links]
  have "distinct (map raw_listing_id (extractor 50 dup_links))" by blast
  moreover have "map url (extractor 50 dup_links) = [str ''/marketplace/item/7/?a'']"
    by (simp add: extractor_dup_links)
  moreover have
    "map href dup_links = [str ''/marketplace/item/7/?a'', str ''/marketplace/item/7/?b'']"
    by (simp add: dup_links_def item7_def str_def)
  ultimately show ?thesis by blast
qed

section \<open>Runs of the scraper\<close>

lemma initialize_ok:
  "initialized e \<Longrightarrow>
     initialize e s = (Inr (), s\<lparr> browser := True, browser_running := True, page := True \<rparr>)"
  by (simp add: initialized_def initialize_def)

lemma scrape_try_loaded:
  assumes "page_loads e"
  shows "scrape_try e new_scraper =
           (Inr (normalize_loop (extractor (maxListings e) (listingLinks e)) []),
            new_scraper\<lparr> browser := True, browser_running := True, page := True,
                         goto_calls := 1 \<rparr>)"
  using assms by (simp add: page_loads_def scrape_try_def initialize_ok new_scraper_def)

lemma cleanup_calls_cleanup: "cleanup_calls (cleanup s) = cleanup_calls s + 1"
  by (simp add: cleanup_def Let_def)

lemma initialize_frame:
  "initialize e s = (r, s') \<Longrightarrow>
     cleanup_calls s' = cleanup_calls s \<and> close_calls s' = close_calls s \<and>
     goto_calls s' = goto_calls s \<and>
     (launch_ok e \<longrightarrow> browser s') \<and> (\<not> launch_ok e \<longrightarrow> s' = s \<and> r = Inl LaunchError)"
  by (auto simp: initialize_def Let_def split: if_splits)

lemma scrape_try_frame:
  assumes "scrape_try e s = (r, s')"
  shows "cleanup_calls s' = cleanup_calls s \<and> close_calls s' = close_calls s \<and>
     (launch_ok e \<longrightarrow> browser s') \<and> (\<not> launch_ok e \<longrightarrow> s' = s) \<and>
     goto_calls s' \<le> goto_calls s + 1"
proof -
  obtain r1 s1 where i: "initialize e s = (r1, s1)" by (cases "initialize e s")
  from initialize_frame [OF i] assms i show ?thesis
    by (auto simp: scrape_try_def Let_def split: sum.splits nav_result.splits if_splits)
qed

lemma scrape_timeout:
  assumes "initialized e" and "goto_result e (goto_calls s) = TimedOut"
  shows "scrape e s =
           (Inl NavigationTimeout,
            cleanup (s\<lparr> browser := True, browser_running := True, page := True,
                        goto_calls := goto_calls s + 1 \<rparr>))"
  using assms by (simp add: scrape_def scrape_try_def initialize_ok)

lemma initialized_timeout_once: "initialized env_timeout_once"
  by (simp add: initialized_def env_timeout_once_def env_ok_def)

text \<open>
  C2, as the spec states it, fails: there is no retry. In a run whose first navigation
  times out and whose second would settle, \<^verbatim>\<open>page.goto\<close> is called once and the run ends
  with the timeout.
\<close>

theorem navigation_timeout_not_retried:
  "goto_result env_timeout_once 0 = TimedOut \<and>
   goto_result env_timeout_once 1 = Settled \<and>
   fst (scrapeAndStore env_timeout_once id empty_db) = Inl NavigationTimeout \<and>
   goto_calls (fst (snd (scrapeAndStore env_timeout_once id empty_db))) = 1"
  by (simp add: scrapeAndStore_def scrape_def scrape_try_def initialize_def cleanup_def
      env_timeout_once_def env_ok_def new_scraper_def)

text \<open>
  C2, amended: when the browser has started and the navigation does not settle within
  the timeout, \<^verbatim>\<open>page.goto\<close> has been called exactly once and is not called again; the
  timeout error reaches the caller of \<^verbatim>\<open>scrapeAndStore\<close> after \<^verbatim>\<open>cleanup\<close> has closed the
  browser, and the database is as it was.
\<close>

theorem navigation_timeout_propagates:
  assumes "initialized e" and "goto_result e 0 = TimedOut"
  shows "fst (scrapeAndStore e clock d) = Inl NavigationTimeout \<and>
         goto_calls (fst (snd (scrapeAndStore e clock d))) = 1 \<and>
         \<not> browser_running (fst (snd (scrapeAndStore e clock d))) \<and>
         snd (snd (scrapeAndStore e clock d)) = d"
proof -
  have g: "goto_result e (goto_calls new_scraper) = TimedOut"
    using assms(2) by (simp add: new_scraper_def)
  note s = scrape_timeout [OF assms(1) g]
  show ?thesis unfolding scrapeAndStore_def s
    by (simp add: cleanup_def new_scraper_def)
qed

theorem navigation_timeout_propagates_witness:
  "initialized env_timeout_once \<and> goto_result env_timeout_once 0 = TimedOut \<and>
   fst (scrapeAndStore env_timeout_once id db_a) = Inl NavigationTimeout \<and>
   goto_calls (fst (snd (scrapeAndStore env_timeout_once id db_a))) = 1 \<and>
   \<not> browser_running (fst (snd (scrapeAndStore env_timeout_once id db_a))) \<and>
   snd (snd (scrapeAndStore env_timeout_once id db_a)) = db_a"
proof -
  have t: "goto_result env_timeout_once 0 = TimedOut"
    by (simp add: env_timeout_once_def)
  from navigation_timeout_propagates [OF initialized_timeout_once t] initialized_timeout_once t
  show ?thesis by blast
qed

text \<open>
  C6: however the \<^verbatim>\<open>try\<close> block of \<^verbatim>\<open>scrape\<close> ends, \<^verbatim>\<open>cleanup\<close> is called once; if
  the browser was launched, \<^verbatim>\<open>browser.close\<close> is called on it and it no longer runs
  after the run, and a run of a fresh scraper leaves no browser running.
\<close>

theorem scrape_always_cleans_up:
  "cleanup_calls (snd (scrape e s)) = cleanup_calls s + 1 \<and>
   (launch_ok e \<longrightarrow> \<not> browser_running (snd (scrape e s)) \<and>
                      close_calls (snd (scrape e s)) = close_calls s + 1) \<and>
   \<not> browser_running (snd (scrape e new_scraper))"
proof -
  obtain r s1 where t: "scrape_try e s = (r, s1)" by (cases "scrape_try e s")
  obtain r' s2 where t': "scrape_try e new_scraper = (r', s2)"
    by (cases "scrape_try e new_scraper")
  have a: "snd (scrape e s) = cleanup s1" using t by (simp add: scrape_def)
  have b: "snd (scrape e new_scraper) = cleanup s2" using t' by (simp add: scrape_def)
  from scrape_try_frame [OF t] have 1: "cleanup_calls (cleanup s1) = cleanup_calls s + 1"
    by (simp add: cleanup_calls_cleanup)
  from scrape_try_frame [OF t]
  have 2: "launch_ok e \<longrightarrow> \<not> browser_running (cleanup s1) \<and>
             close_calls (cleanup s1) = close_calls s + 1"
    by (auto simp: cleanup_def Let_def)
  from scrape_try_frame [OF t']
  have 3: "\<not> browser_running (cleanup s2)"
    by (cases "launch_ok e") (auto simp: cleanup_def Let_def new_scraper_def)
  from 1 2 3 show ?thesis unfolding a b by blast
qed

theorem scrape_always_cleans_up_witness:
  "launch_ok env_timeout_once \<and>
   fst (scrape env_timeout_once new_scraper) = Inl NavigationTimeout \<and>
   cleanup_calls (snd (scrape env_timeout_once new_scraper)) = 1 \<and>
   close_calls (snd (scrape env_timeout_once new_scraper)) = 1 \<and>
   \<not> browser_running (snd (scrape env_timeout_once new_scraper))"
proof -
  have l: "launch_ok env_timeout_once" by (simp add: env_timeout_once_def env_ok_def)
  have n: "cleanup_calls new_scraper = 0" "close_calls new_scraper = 0"
    by (simp_all add: new_scraper_def)
  have g: "goto_result env_timeout_once (goto_calls new_scraper) = TimedOut"
    by (simp add: env_timeout_once_def new_scraper_def)
  have f: "fst (scrape env_timeout_once new_scraper) = Inl NavigationTimeout"
    by (simp add: scrape_timeout [OF initialized_timeout_once g])
  from scrape_always_cleans_up [of env_timeout_once new_scraper] l n f
  show ?thesis by simp
qed

text \<open>
  C7: when the page loads and the extractor returns no candidate, \<^verbatim>\<open>scrapeAndStore\<close>
  returns the success value with count 0 and no error, and the database is as it was,
  its count of statements included: nothing was sent to it.
\<close>

theorem empty_extraction_is_success:
  assumes "page_loads e" and "extractor (maxListings e) (listingLinks e) = []"
  shows "fst (scrapeAndStore e clock d) =
           Inr \<lparr> success = True, count = 0, listings = None \<rparr> \<and>
         snd (snd (scrapeAndStore e clock d)) = d"
  using assms by (simp add: scrapeAndStore_def scrape_def scrape_try_loaded)

theorem empty_extraction_is_success_witness:
  "page_loads (env_ok []) \<and>
   extractor (maxListings (env_ok [])) (listingLinks (env_ok [])) = [] \<and>
   fst (scrapeAndStore (env_ok []) id db_a) =
     Inr \<lparr> success = True, count = 0, listings = None \<rparr> \<and>
   snd (snd (scrapeAndStore (env_ok []) id db_a)) = db_a"
proof -
  have p: "page_loads (env_ok [])"
    by (simp add: page_loads_def initialized_def env_ok_def)
  have x: "extractor (maxListings (env_ok [])) (listingLinks (env_ok [])) = []"
    by (simp add: extractor_def env_ok_def)
  from empty_extraction_is_success [OF p x] p x show ?thesis by blast
qed

section \<open>The table: upsert, soft delete, reads of a deleted row\<close>

lemma column_values_a: "column_values listing_a = Inr listing_a"
  by (simp add: listing_a_def column_defs class_defs)

lemma column_values_b: "column_values listing_b = Inl NumericOverflow"
  by (simp add: listing_b_def column_defs class_defs)

lemma upsert_a: "upsert 1 listing_a empty_db = (Inr (row_a 1 1 True), db_a)"
  by (simp add: upsert_def column_values_a empty_db_def db_a_def Let_def)
    (simp add: listing_a_def row_a_def)

lemma delete_a: "delete 1 2 db_a = (True, db_deleted)"
  by (simp add: delete_def db_a_def db_deleted_def row_a_def Let_def)

text \<open>
  C1 is what the code is written to do and does not do: \<^verbatim>\<open>bulkUpsert\<close> opens a
  transaction on the client of \<^verbatim>\<open>getClient\<close>, but every \<^verbatim>\<open>upsert\<close> runs through
  \<^verbatim>\<open>db.query\<close> on the pool and commits by itself. In the batch of \<open>listing_a\<close> and
  \<open>listing_b\<close> the second upsert fails (its price has eleven digits) and \<^verbatim>\<open>bulkUpsert\<close>
  throws after \<^verbatim>\<open>ROLLBACK\<close>, yet the row of \<open>listing_a\<close> is in the table, active, and
  \<^verbatim>\<open>findById\<close> returns it.
\<close>

theorem bulkUpsert_keeps_earlier_rows:
  "fst (bulkUpsert clock [listing_a, listing_b] empty_db) = Inl NumericOverflow \<and>
   car_listings (snd (bulkUpsert clock [listing_a, listing_b] empty_db)) =
     [row_a (clock 0) (clock 0) True] \<and>
   client_tx (snd (bulkUpsert clock [listing_a, listing_b] empty_db)) = False \<and>
   fst (findById 1 (snd (bulkUpsert clock [listing_a, listing_b] empty_db))) =
     Some (row_a (clock 0) (clock 0) True)"
proof -
  have 1: "upsert (clock 0) listing_a (client_begin empty_db) =
      (Inr (row_a (clock 0) (clock 0) True),
       \<lparr> car_listings = [row_a (clock 0) (clock 0) True], id_seq = 1, client_tx = True,
         statements = 2 \<rparr>)"
    by (simp add: upsert_def column_values_a empty_db_def client_begin_def Let_def)
      (simp add: listing_a_def row_a_def)
  have 2: "upsert (clock (Suc 0)) listing_b
             \<lparr> car_listings = [row_a (clock 0) (clock 0) True], id_seq = 1, client_tx = True,
               statements = 2 \<rparr> =
      (Inl NumericOverflow,
       \<lparr> car_listings = [row_a (clock 0) (clock 0) True], id_seq = 2, client_tx = True,
         statements = 3 \<rparr>)"
    by (simp add: upsert_def column_values_b Let_def)
  have 3: "bulkUpsert clock [listing_a, listing_b] empty_db =
      (Inl NumericOverflow,
       \<lparr> car_listings = [row_a (clock 0) (clock 0) True], id_seq = 2, client_tx = False,
         statements = 4 \<rparr>)"
    by (simp add: bulkUpsert_def 1 2 client_rollback_def)
  show ?thesis unfolding 3 by (simp add: findById_def row_a_def)
qed

lemma delete_length: "length (car_listings (snd (delete i now d))) = length (car_listings d)"
  by (simp add: delete_def Let_def)

text \<open>
  C9, as the spec states it, fails on one column: the statement of \<^verbatim>\<open>delete\<close> is an
  \<^verbatim>\<open>UPDATE\<close>, so the trigger of the migration sets \<^verbatim>\<open>updated_at\<close>. The row stored at
  time 1 and deleted at time 2 has \<^verbatim>\<open>updated_at\<close> 2 afterwards.
\<close>

theorem delete_touches_updated_at:
  "snd (upsert 1 listing_a empty_db) = db_a \<and>
   map updated_at (car_listings db_a) = [1] \<and>
   map updated_at (car_listings (snd (delete 1 2 db_a))) = [2]"
proof -
  have a: "snd (upsert 1 listing_a empty_db) = db_a" by (simp only: upsert_a snd_conv)
  have b: "map updated_at (car_listings db_a) = [1]" by (simp add: db_a_def row_a_def)
  have c: "map updated_at (car_listings (snd (delete 1 2 db_a))) = [2]"
    by (simp add: delete_a) (simp add: db_deleted_def row_a_def)
  from a b c show ?thesis by blast
qed

text \<open>
  C9, amended: \<^verbatim>\<open>delete\<close> never removes a row. For every id, every row with that id gets
  \<^verbatim>\<open>is_active\<close> false and, by the trigger, \<^verbatim>\<open>updated_at\<close> the time of the statement,
  with every other column unchanged; every other row is unchanged; the call returns
  true if and only if a row has that id, and when none has, the table is unchanged.
\<close>

theorem delete_is_soft:
  "fst (delete i now d) = (\<exists>r \<in> set (car_listings d). row_id r = i) \<and>
   length (car_listings (snd (delete i now d))) = length (car_listings d) \<and>
   (\<forall>k < length (car_listings d).
      (row_id (car_listings d ! k) = i \<longrightarrow>
         car_listings (snd (delete i now d)) ! k =
           (car_listings d ! k)\<lparr> is_active := False, updated_at := now \<rparr>) \<and>
      (row_id (car_listings d ! k) \<noteq> i \<longrightarrow>
         car_listings (snd (delete i now d)) ! k = car_listings d ! k)) \<and>
   ((\<forall>r \<in> set (car_listings d). row_id r \<noteq> i) \<longrightarrow>
      car_listings (snd (delete i now d)) = car_listings d)"
proof -
  have a: "fst (delete i now d) = (\<exists>r \<in> set (car_listings d). row_id r = i)"
    by (auto simp: delete_def Let_def filter_empty_conv)
  have b: "\<forall>k < length (car_listings d).
      (row_id (car_listings d ! k) = i \<longrightarrow>
         car_listings (snd (delete i now d)) ! k =
           (car_listings d ! k)\<lparr> is_active := False, updated_at := now \<rparr>) \<and>
      (row_id (car_listings d ! k) \<noteq> i \<longrightarrow>
         car_listings (snd (delete i now d)) ! k = car_listings d ! k)"
    by (simp add: delete_def Let_def)
  have c: "(\<forall>r \<in> set (car_listings d). row_id r \<noteq> i) \<longrightarrow>
      car_listings (snd (delete i now d)) = car_listings d"
    by (simp add: delete_def Let_def map_idI)
  from a b c delete_length show ?thesis by blast
qed

theorem delete_is_soft_witness:
  "fst (delete 1 2 db_a) = True \<and>
   car_listings (snd (delete 1 2 db_a)) ! 0 =
     (car_listings db_a ! 0)\<lparr> is_active := False, updated_at := 2 \<rparr> \<and>
   length (car_listings (snd (delete 1 2 db_a))) = 1 \<and>
   fst (delete 5 2 db_a) = False \<and>
   car_listings (snd (delete 5 2 db_a)) = car_listings db_a"
proof -
  have r: "car_listings db_a = [row_a 1 1 True]" "row_id (row_a 1 1 True) = 1"
    by (simp_all add: db_a_def row_a_def)
  from delete_is_soft [of 1 2 db_a] r
  have 1: "fst (delete 1 2 db_a) = True \<and>
      car_listings (snd (delete 1 2 db_a)) ! 0 =
        (car_listings db_a ! 0)\<lparr> is_active := False, updated_at := 2 \<rparr> \<and>
      length (car_listings (snd (delete 1 2 db_a))) = 1"
    by simp
  from delete_is_soft [of 5 2 db_a] r
  have 2: "fst (delete 5 2 db_a) = False \<and>
      car_listings (snd (delete 5 2 db_a)) = car_listings db_a"
    by simp
  from 1 2 show ?thesis by blast
qed

lemma find_None_inactive:
  "\<forall>x \<in> set rows. row_id x = i \<longrightarrow> \<not> is_active x \<Longrightarrow>
     find (\<lambda>r. row_id r = i \<and> is_active r) rows = None"
  by (simp add: find_None_iff)

text \<open>
  C10, as stated, fails for \<^verbatim>\<open>update\<close> when the object names no column of
  \<^verbatim>\<open>allowedFields\<close>: on the deleted row of \<open>db_deleted\<close>, \<^verbatim>\<open>update(1, {})\<close> does not
  return \<^verbatim>\<open>null\<close>, it throws, and the service passes the error on with no status: the
  answer is 500, not 404.
\<close>

theorem update_without_fields_throws:
  "snd (delete 1 2 db_a) = db_deleted \<and>
   map is_active (car_listings db_deleted) = [False] \<and>
   fst (findById 1 db_deleted) = None \<and>
   fst (update 1 no_updates 3 db_deleted) = Inl NoValidFields \<and>
   fst (updateListing 2026 1 no_updates 3 db_deleted) = Inl NoValidFields \<and>
   statusCode NoValidFields = 500"
  by (simp add: delete_a)
    (simp add: findById_def update_def updateListing_def validateUpdateData_def
      fields_of_def no_updates_def db_deleted_def row_a_def statusCode_def status_def)

text \<open>
  C10, amended: for every id whose row is in the table with \<^verbatim>\<open>is_active\<close> false,
  \<^verbatim>\<open>findById\<close> returns \<^verbatim>\<open>null\<close> and the service answers 404; \<^verbatim>\<open>update\<close> returns \<^verbatim>\<open>null\<close>
  and leaves the table as it is whenever the object names at least one column of
  \<^verbatim>\<open>allowedFields\<close>, and the service answers 404 when the object also passes
  \<^verbatim>\<open>validateUpdateData\<close>; \<^verbatim>\<open>delete\<close> still returns true, the service reports success,
  and the row is still in the table.
\<close>

theorem deleted_row_is_hidden:
  assumes "r \<in> set (car_listings d)" and "row_id r = i"
    and "\<forall>x \<in> set (car_listings d). row_id x = i \<longrightarrow> \<not> is_active x"
  shows "fst (findById i d) = None \<and>
         fst (getListingById i d) = Inl ListingNotFound \<and>
         (fields_of u \<noteq> [] \<longrightarrow>
            fst (update i u now d) = Inr None \<and>
            car_listings (snd (update i u now d)) = car_listings d) \<and>
         (fields_of u \<noteq> [] \<and> validateUpdateData currentYear u = Inr u \<longrightarrow>
            fst (updateListing currentYear i u now d) = Inl ListingNotFoundOrInactive) \<and>
         statusCode ListingNotFound = 404 \<and> statusCode ListingNotFoundOrInactive = 404 \<and>
         fst (delete i now d) = True \<and>
         fst (deleteListing i now d) = Inr () \<and>
         r\<lparr> updated_at := now \<rparr> \<in> set (car_listings (snd (delete i now d)))"
proof -
  note f = find_None_inactive [OF assms(3)]
  have 1: "fst (findById i d) = None" by (simp add: findById_def f)
  have 2: "fst (getListingById i d) = Inl ListingNotFound"
    by (simp add: getListingById_def findById_def f)
  have 3: "fields_of u \<noteq> [] \<longrightarrow> fst (update i u now d) = Inr None \<and>
            car_listings (snd (update i u now d)) = car_listings d"
    by (simp add: update_def f Let_def)
  have 4: "fields_of u \<noteq> [] \<and> validateUpdateData currentYear u = Inr u \<longrightarrow>
            fst (updateListing currentYear i u now d) = Inl ListingNotFoundOrInactive"
    by (simp add: updateListing_def update_def f Let_def)
  have 5: "statusCode ListingNotFound = 404 \<and> statusCode ListingNotFoundOrInactive = 404"
    by (simp add: statusCode_def status_def)
  have 6: "fst (delete i now d) = True"
    using assms(1,2) by (auto simp: delete_def Let_def filter_empty_conv)
  then have 7: "fst (deleteListing i now d) = Inr ()"
    by (cases "delete i now d") (simp add: deleteListing_def)
  have "r\<lparr> is_active := False, updated_at := now \<rparr> \<in> set (car_listings (snd (delete i now d)))"
    using assms(1,2) by (force simp: delete_def Let_def)
  moreover have "r\<lparr> is_active := False \<rparr> = r" using assms by (cases r) auto
  ultimately have 8: "r\<lparr> updated_at := now \<rparr> \<in> set (car_listings (snd (delete i now d)))"
    by metis
  from 1 2 3 4 5 6 7 8 show ?thesis by blast
qed

theorem deleted_row_is_hidden_witness:
  "fst (findById 1 db_deleted) = None \<and>
   fst (getListingById 1 db_deleted) = Inl ListingNotFound \<and>
   fst (update 1 new_price 3 db_deleted) = Inr None \<and>
   fst (updateListing 2026 1 new_price 3 db_deleted) = Inl ListingNotFoundOrInactive \<and>
   fst (delete 1 3 db_deleted) = True \<and>
   fst (deleteListing 1 3 db_deleted) = Inr () \<and>
   row_a 1 3 False \<in> set (car_listings (snd (delete 1 3 db_deleted)))"
proof -
  have h1: "row_a 1 2 False \<in> set (car_listings db_deleted)" by (simp add: db_deleted_def)
  have h2: "row_id (row_a 1 2 False) = 1" by (simp add: row_a_def)
  have h3: "\<forall>x \<in> set (car_listings db_deleted). row_id x = 1 \<longrightarrow> \<not> is_active x"
    by (simp add: db_deleted_def row_a_def)
  have u: "fields_of new_price \<noteq> []"
    by (simp add: fields_of_def new_price_def no_updates_def)
  have v: "validateUpdateData 2026 new_price = Inr new_price"
    by (simp add: validateUpdateData_def new_price_def no_updates_def)
  have w: "(row_a 1 2 False)\<lparr> updated_at := 3 \<rparr> = row_a 1 3 False" by (simp add: row_a_def)
  from deleted_row_is_hidden [OF h1 h2 h3, of new_price 3 2026] u v w
  show ?thesis by simp
qed

end
